theory Spec2Isabelle
  imports Complex_Main "HOL-Library.AList"
begin

section \<open>Python values, dictionaries and exceptions\<close>

text \<open>
  The job life cycle of \<^verbatim>\<open>api_server.py\<close>. Python dictionaries are association
  lists in insertion order (\<open>AList.update\<close> replaces in place or appends, as a
  \<^verbatim>\<open>dict\<close> does). Python numbers (file sizes in MB, wall-clock seconds, progress)
  are idealised as reals; a division is fallible, as in Python.
\<close>

datatype val = VStr string | VNum real | VDict "(string \<times> val) list"

type_synonym pydict = "(string \<times> val) list"

datatype exn = KeyError | OSError | ZeroDivisionError | SubprocessError

fun str_of_exn :: "exn \<Rightarrow> string" where
  "str_of_exn KeyError = ''KeyError''"
| "str_of_exn OSError = ''[Errno 2] No such file or directory''"
| "str_of_exn ZeroDivisionError = ''float division by zero''"
| "str_of_exn SubprocessError = ''subprocess error''"

text \<open>\<^verbatim>\<open>d.update(kw)\<close>: every pair of \<open>kw\<close>, in order, is stored into \<open>d\<close>.\<close>

definition dict_update :: "pydict \<Rightarrow> pydict \<Rightarrow> pydict" where
  "dict_update d kw = fold (\<lambda>(k, v). AList.update k v) kw d"

text \<open>\<^verbatim>\<open>a / b\<close> on Python numbers.\<close>

definition py_truediv :: "real \<Rightarrow> real \<Rightarrow> exn + real" where
  "py_truediv a b = (if b = 0 then Inl ZeroDivisionError else Inr (a / b))"

section \<open>The job registry: \<^verbatim>\<open>active_jobs\<close>\<close>

text \<open>
  The five strings the code writes into \<^verbatim>\<open>'status'\<close>. A job record is the dictionary
  \<^verbatim>\<open>active_jobs[job_id]\<close>; \<^verbatim>\<open>update_job_status\<close> is its only writer and always
  stores \<^verbatim>\<open>'status'\<close> and \<^verbatim>\<open>'updated_at'\<close>, so these two keys are record fields
  and the keyword arguments merged so far are the dictionary \<open>entries\<close>.
\<close>

datatype status = Queued | Processing | Completed | Failed | Cancelled

record job =
  status :: status
  updated_at :: real
  entries :: pydict

type_synonym job_id = string

type_synonym registry = "(job_id \<times> job) list"

text \<open>
  \<^verbatim>\<open>get_job_status\<close> returns \<^verbatim>\<open>active_jobs.get(job_id, {})\<close>; the empty dictionary,
  which every caller tests with \<^verbatim>\<open>if not job\<close>, is \<open>None\<close> here.
\<close>

definition get_job_status :: "registry \<Rightarrow> job_id \<Rightarrow> job option" where
  "get_job_status jobs jid = map_of jobs jid"

text \<open>
  \<^verbatim>\<open>update_job_status(job_id, status, **kwargs)\<close> at time \<open>now\<close>: an unknown id
  first gets the empty record, then status, time stamp and keyword arguments are
  merged into the record. The whole body runs under \<^verbatim>\<open>job_lock\<close>.

  The source merges the one dictionary
  \<^verbatim>\<open>{'status': status, 'updated_at': time.time(), **kwargs}\<close>. With the record layout
  above this is the code's behaviour for keyword arguments that name neither
  \<^verbatim>\<open>status\<close> (Python refuses such a call with a \<^verbatim>\<open>TypeError\<close> before the body
  runs) nor \<^verbatim>\<open>updated_at\<close> (which in the source would replace the time stamp). Every
  call in the source passes literal keywords other than these two; a property stated
  for arbitrary keyword arguments carries this condition on their keys.
\<close>

definition update_job_status ::
    "real \<Rightarrow> job_id \<Rightarrow> status \<Rightarrow> pydict \<Rightarrow> registry \<Rightarrow> registry" where
  "update_job_status now jid st kwargs jobs =
     (let old = (case map_of jobs jid of None \<Rightarrow> [] | Some j \<Rightarrow> entries j)
      in AList.update jid
           \<lparr>status = st, updated_at = now, entries = dict_update old kwargs\<rparr> jobs)"

text \<open>The test of \<^verbatim>\<open>clean_old_jobs\<close> on one record (line 83).\<close>

definition terminal :: "status \<Rightarrow> bool" where
  "terminal s = (s = Completed \<or> s = Failed \<or> s = Cancelled)"

definition expired :: "real \<Rightarrow> job \<Rightarrow> bool" where
  "expired current_time j = (terminal (status j) \<and> current_time - updated_at j > 3600)"

text \<open>
  The loop of \<^verbatim>\<open>clean_old_jobs\<close> over the snapshot \<^verbatim>\<open>list(active_jobs.keys())\<close>.
  \<^verbatim>\<open>active_jobs[job_id]\<close> raises \<^verbatim>\<open>KeyError\<close> on a missing key; the registry
  reached so far is returned beside the exception.
\<close>

fun clean_loop :: "real \<Rightarrow> job_id list \<Rightarrow> registry \<Rightarrow> registry \<times> exn option" where
  "clean_loop current_time [] jobs = (jobs, None)"
| "clean_loop current_time (jid # ks) jobs =
     (case map_of jobs jid of
        None \<Rightarrow> (jobs, Some KeyError)
      | Some j \<Rightarrow>
          clean_loop current_time ks
            (if expired current_time j then AList.delete jid jobs else jobs))"

definition clean_old_jobs :: "real \<Rightarrow> registry \<Rightarrow> registry \<times> exn option" where
  "clean_old_jobs current_time jobs = clean_loop current_time (map fst jobs) jobs"

section \<open>The process registry: \<^verbatim>\<open>active_processes\<close>\<close>

text \<open>A process handle is the \<^verbatim>\<open>Popen\<close> object, known by its pid.\<close>

type_synonym processes = "(job_id \<times> nat) list"

definition register_process :: "job_id \<Rightarrow> nat \<Rightarrow> processes \<Rightarrow> processes" where
  "register_process jid p procs = AList.update jid p procs"

definition unregister_process :: "job_id \<Rightarrow> processes \<Rightarrow> processes" where
  "unregister_process jid procs =
     (if map_of procs jid \<noteq> None then AList.delete jid procs else procs)"

text \<open>
  \<^verbatim>\<open>cancel_process\<close>: with a handle, the process group is signalled; \<open>kill_ok\<close>
  says whether \<^verbatim>\<open>taskkill\<close>/\<^verbatim>\<open>os.killpg\<close> went through (an exception is logged
  and gives \<^verbatim>\<open>False\<close>). The pids signalled are collected in the second component.
\<close>

definition cancel_process :: "bool \<Rightarrow> job_id \<Rightarrow> processes \<Rightarrow> nat list \<Rightarrow> bool \<times> nat list" where
  "cancel_process kill_ok jid procs sigs =
     (case map_of procs jid of
        None \<Rightarrow> (False, sigs)
      | Some p \<Rightarrow> if kill_ok then (True, p # sigs) else (False, sigs))"

section \<open>Probing files and the size arithmetic\<close>

definition size_mb :: "nat \<Rightarrow> real" where
  "size_mb bytes = real bytes / (1024 * 1024)"

text \<open>
  \<^verbatim>\<open>get_video_info\<close>: \<^verbatim>\<open>subprocess.run\<close> raises when ffmpeg cannot be started
  (\<open>ffmpeg_ok\<close> is false); \<open>info\<close> holds what the regular expressions found in
  ffmpeg's output (resolution, codec); \<^verbatim>\<open>os.path.getsize\<close> raises on a missing file.
\<close>

definition get_video_info ::
    "bool \<Rightarrow> (string \<times> nat) list \<Rightarrow> pydict \<Rightarrow> string \<Rightarrow> exn + pydict" where
  "get_video_info ffmpeg_ok fs info path =
     (if \<not> ffmpeg_ok then Inl OSError
      else case map_of fs path of
             None \<Rightarrow> Inl OSError
           | Some bytes \<Rightarrow> Inr (AList.update ''size_mb'' (VNum (size_mb bytes)) info))"

text \<open>\<^verbatim>\<open>info.get('size_mb', 0)\<close>.\<close>

definition get_size_mb :: "pydict \<Rightarrow> real" where
  "get_size_mb info = (case map_of info ''size_mb'' of Some (VNum x) \<Rightarrow> x | _ \<Rightarrow> 0)"

text \<open>Lines 199 and 200 of \<^verbatim>\<open>api_server.py\<close>.\<close>

definition compression_ratio :: "real \<Rightarrow> real \<Rightarrow> exn + real" where
  "compression_ratio original_size compressed_size =
     (if compressed_size > 0 then py_truediv original_size compressed_size else Inr 0)"

definition compression_percent :: "real \<Rightarrow> real \<Rightarrow> exn + real" where
  "compression_percent original_size compressed_size =
     (if original_size > 0
      then (case py_truediv (original_size - compressed_size) original_size of
              Inl x \<Rightarrow> Inl x
            | Inr q \<Rightarrow> Inr (q * 100))
      else Inr 0)"

text \<open>Line 133 of \<^verbatim>\<open>video_compressor.py\<close>, the same guard in \<^verbatim>\<open>compress_video\<close>.\<close>

definition compress_video_ratio :: "real \<Rightarrow> real \<Rightarrow> exn + real" where
  "compress_video_ratio original_size_mb compressed_size_mb =
     (if compressed_size_mb > 0 then py_truediv original_size_mb compressed_size_mb else Inr 0)"

text \<open>\<^verbatim>\<open>os.path.basename\<close>: what follows the last slash.\<close>

definition basename :: "string \<Rightarrow> string" where
  "basename p = rev (takeWhile (\<lambda>ch. ch \<noteq> CHR ''/'') (rev p))"

section \<open>The job runner: \<^verbatim>\<open>process_video_async\<close>\<close>

text \<open>
  What the world outside the registries decides during one run: the arguments of the
  call, whether the two probes can start ffmpeg, whether \<^verbatim>\<open>Popen\<close> and
  \<^verbatim>\<open>communicate\<close> raise, what the encoder returns and writes, and whether
  \<^verbatim>\<open>os.remove\<close> goes through.
\<close>

record env =
  e_job :: job_id
  e_input :: string
  e_output :: string
  e_pid :: nat
  in_info :: pydict
  out_info :: pydict
  probe_in_ok :: bool
  probe_out_ok :: bool
  popen_ok :: bool
  communicate_ok :: bool
  enc_rc :: int
  enc_stderr :: string
  enc_written :: "nat option"
  remove_ok :: bool

text \<open>
  The program points of \<^verbatim>\<open>process_video_async\<close>, one for each access to shared
  state (registries, file system, encoder); the line each stands before is given.
\<close>

datatype pc =
    P_start          \<comment> \<open>line 119\<close>
  | P_probe_in       \<comment> \<open>line 122\<close>
  | P_update10       \<comment> \<open>line 125\<close>
  | P_popen          \<comment> \<open>line 161\<close>
  | P_register       \<comment> \<open>line 173\<close>
  | P_communicate    \<comment> \<open>line 176\<close>
  | P_unregister     \<comment> \<open>line 179\<close>
  | P_read_status    \<comment> \<open>line 182\<close>
  | P_cleanup        \<comment> \<open>line 185\<close>
  | P_fail           \<comment> \<open>line 193\<close>
  | P_probe_out      \<comment> \<open>line 197\<close>
  | P_complete       \<comment> \<open>line 202\<close>
  | P_except         \<comment> \<open>line 216\<close>
  | P_except_unreg   \<comment> \<open>line 219\<close>
  | P_done

text \<open>The local variables of the run.\<close>

record runner =
  pc :: pc
  original_info :: pydict
  original_size :: real
  returncode :: int
  stderr :: string
  compressed_size :: real
  ratio :: real
  percent :: real
  raised :: "exn option"

section \<open>Cancel requests: \<^verbatim>\<open>cancel_job\<close>\<close>

datatype response = Success | NotFound | InvalidState

datatype cpc =
    C_read           \<comment> \<open>line 329\<close>
  | C_kill           \<comment> \<open>line 344\<close>
  | C_update         \<comment> \<open>line 347\<close>
  | C_return response

record canceller =
  c_job :: job_id
  c_kill_ok :: bool
  cpc :: cpc

section \<open>The shared state and its interleavings\<close>

record config =
  active_jobs :: registry
  active_processes :: processes
  files :: "(string \<times> nat) list"
  signals :: "nat list"
  clock :: real
  run :: runner
  cancels :: "canceller list"

definition raise :: "exn \<Rightarrow> config \<Rightarrow> config" where
  "raise x c = c\<lparr>run := (run c)\<lparr>pc := P_except, raised := Some x\<rparr>\<rparr>"

definition goto :: "pc \<Rightarrow> config \<Rightarrow> config" where
  "goto p c = c\<lparr>run := (run c)\<lparr>pc := p\<rparr>\<rparr>"

text \<open>
  One atomic action of the runner. The command line built in lines 133 to 158 reads
  only the options and cannot raise; it is not modelled.
\<close>

definition runner_step :: "env \<Rightarrow> config \<Rightarrow> config" where
  "runner_step e c =
     (case pc (run c) of
        P_start \<Rightarrow>
          goto P_probe_in
            (c\<lparr>active_jobs := update_job_status (clock c) (e_job e) Processing
                  [(''progress'', VNum 0)] (active_jobs c)\<rparr>)
      | P_probe_in \<Rightarrow>
          (case get_video_info (probe_in_ok e) (files c) (in_info e) (e_input e) of
             Inl x \<Rightarrow> raise x c
           | Inr info \<Rightarrow>
               c\<lparr>run := (run c)\<lparr>pc := P_update10, original_info := info,
                                 original_size := get_size_mb info\<rparr>\<rparr>)
      | P_update10 \<Rightarrow>
          goto P_popen
            (c\<lparr>active_jobs := update_job_status (clock c) (e_job e) Processing
                  [(''progress'', VNum 10), (''original_info'', VDict (original_info (run c)))]
                  (active_jobs c)\<rparr>)
      | P_popen \<Rightarrow> (if popen_ok e then goto P_register c else raise OSError c)
      | P_register \<Rightarrow>
          goto P_communicate
            (c\<lparr>active_processes := register_process (e_job e) (e_pid e) (active_processes c)\<rparr>)
      | P_communicate \<Rightarrow>
          (let c' = c\<lparr>files := (case enc_written e of
                                    None \<Rightarrow> files c
                                  | Some bytes \<Rightarrow> AList.update (e_output e) bytes (files c))\<rparr>
           in if communicate_ok e
              then c'\<lparr>run := (run c)\<lparr>pc := P_unregister, returncode := enc_rc e,
                                      stderr := enc_stderr e\<rparr>\<rparr>
              else raise SubprocessError c')
      | P_unregister \<Rightarrow>
          goto P_read_status
            (c\<lparr>active_processes := unregister_process (e_job e) (active_processes c)\<rparr>)
      | P_read_status \<Rightarrow>
          (if map_option status (get_job_status (active_jobs c) (e_job e)) = Some Cancelled
           then goto P_cleanup c
           else if returncode (run c) \<noteq> 0 then goto P_fail c
           else goto P_probe_out c)
      | P_cleanup \<Rightarrow>
          goto P_done
            (if map_of (files c) (e_output e) \<noteq> None \<and> remove_ok e
             then c\<lparr>files := AList.delete (e_output e) (files c)\<rparr>
             else c)
      | P_fail \<Rightarrow>
          goto P_done
            (c\<lparr>active_jobs := update_job_status (clock c) (e_job e) Failed
                  [(''message'', VStr (''FFmpeg error: '' @ stderr (run c)))] (active_jobs c)\<rparr>)
      | P_probe_out \<Rightarrow>
          (case get_video_info (probe_out_ok e) (files c) (out_info e) (e_output e) of
             Inl x \<Rightarrow> raise x c
           | Inr info \<Rightarrow>
               (case compression_ratio (original_size (run c)) (get_size_mb info) of
                  Inl x \<Rightarrow> raise x c
                | Inr q \<Rightarrow>
                    (case compression_percent (original_size (run c)) (get_size_mb info) of
                       Inl x \<Rightarrow> raise x c
                     | Inr p \<Rightarrow>
                         c\<lparr>run := (run c)\<lparr>pc := P_complete,
                                compressed_size := get_size_mb info,
                                ratio := q, percent := p\<rparr>\<rparr>)))
      | P_complete \<Rightarrow>
          goto P_done
            (c\<lparr>active_jobs := update_job_status (clock c) (e_job e) Completed
                  [(''progress'', VNum 100),
                   (''message'', VStr ''Compression complete''),
                   (''original_size'', VNum (original_size (run c))),
                   (''compressed_size'', VNum (compressed_size (run c))),
                   (''compression_ratio'', VNum (ratio (run c))),
                   (''compression_percent'', VNum (percent (run c))),
                   (''output_filename'', VStr (basename (e_output e)))]
                  (active_jobs c)\<rparr>)
      | P_except \<Rightarrow>
          goto P_except_unreg
            (c\<lparr>active_jobs := update_job_status (clock c) (e_job e) Failed
                  [(''message'', VStr (case raised (run c) of
                                          None \<Rightarrow> [] | Some x \<Rightarrow> str_of_exn x))]
                  (active_jobs c)\<rparr>)
      | P_except_unreg \<Rightarrow>
          goto P_done
            (c\<lparr>active_processes := unregister_process (e_job e) (active_processes c)\<rparr>)
      | P_done \<Rightarrow> c)"

text \<open>
  One atomic action of a cancel request: the read and test of lines 329 to 341, the
  call of \<^verbatim>\<open>cancel_process\<close> (its result is not used), the status update, the reply.
\<close>

definition cancel_step :: "canceller \<Rightarrow> config \<Rightarrow> canceller \<times> config" where
  "cancel_step k c =
     (case cpc k of
        C_read \<Rightarrow>
          (case get_job_status (active_jobs c) (c_job k) of
             None \<Rightarrow> (k\<lparr>cpc := C_return NotFound\<rparr>, c)
           | Some j \<Rightarrow>
               if status j \<noteq> Queued \<and> status j \<noteq> Processing
               then (k\<lparr>cpc := C_return InvalidState\<rparr>, c)
               else (k\<lparr>cpc := C_kill\<rparr>, c))
      | C_kill \<Rightarrow>
          (k\<lparr>cpc := C_update\<rparr>,
           c\<lparr>signals := snd (cancel_process (c_kill_ok k) (c_job k)
                                 (active_processes c) (signals c))\<rparr>)
      | C_update \<Rightarrow>
          (k\<lparr>cpc := C_return Success\<rparr>,
           c\<lparr>active_jobs := update_job_status (clock c) (c_job k) Cancelled
                 [(''message'', VStr ''Job cancelled by user'')] (active_jobs c)\<rparr>)
      | C_return r \<Rightarrow> (k, c))"

text \<open>\<^verbatim>\<open>cancel_job\<close> run from its first line to its reply with no other thread between.\<close>

definition cancel_job :: "bool \<Rightarrow> job_id \<Rightarrow> config \<Rightarrow> response \<times> config" where
  "cancel_job kill_ok jid c =
     (let (k1, c1) = cancel_step \<lparr>c_job = jid, c_kill_ok = kill_ok, cpc = C_read\<rparr> c;
          (k2, c2) = cancel_step k1 c1;
          (k3, c3) = cancel_step k2 c2
      in (case cpc k3 of C_return r \<Rightarrow> r | _ \<Rightarrow> InvalidState, c3))"

text \<open>
  The events of the server: the runner moves, a cancel request arrives, the \<open>n\<close>-th
  cancel request moves, \<^verbatim>\<open>list_jobs\<close> calls \<^verbatim>\<open>clean_old_jobs\<close>, time passes.
\<close>

datatype event = Run | Request job_id bool | Cancel nat | Sweep | Tick real

fun step :: "env \<Rightarrow> event \<Rightarrow> config \<Rightarrow> config" where
  "step e Run c = runner_step e c"
| "step e (Request jid kill_ok) c =
     c\<lparr>cancels := cancels c @ [\<lparr>c_job = jid, c_kill_ok = kill_ok, cpc = C_read\<rparr>]\<rparr>"
| "step e (Cancel n) c =
     (if n < length (cancels c)
      then (let (k, c') = cancel_step (cancels c ! n) c
            in c'\<lparr>cancels := (cancels c)[n := k]\<rparr>)
      else c)"
| "step e Sweep c = c\<lparr>active_jobs := fst (clean_old_jobs (clock c) (active_jobs c))\<rparr>"
| "step e (Tick d) c = c\<lparr>clock := clock c + d\<rparr>"

definition exec :: "env \<Rightarrow> event list \<Rightarrow> config \<Rightarrow> config" where
  "exec e evs c = fold (step e) evs c"

text \<open>
  \<^verbatim>\<open>compress_video_api\<close> from line 287 on: the record is created \<^verbatim>\<open>queued\<close> and the
  runner thread is started, not yet at its first line.
\<close>

definition new_runner :: runner where
  "new_runner = \<lparr>pc = P_start, original_info = [], original_size = 0, returncode = 0,
     stderr = [], compressed_size = 0, ratio = 0, percent = 0, raised = None\<rparr>"

definition submit :: "env \<Rightarrow> string \<Rightarrow> pydict \<Rightarrow> config \<Rightarrow> config" where
  "submit e filename options c =
     c\<lparr>active_jobs := update_job_status (clock c) (e_job e) Queued
          [(''filename'', VStr filename), (''input_path'', VStr (e_input e)),
           (''output_path'', VStr (e_output e)), (''compression_options'', VDict options)]
          (active_jobs c),
       run := new_runner\<rparr>"

text \<open>The status a poller reads for a job, if it has a record.\<close>

definition status_of :: "config \<Rightarrow> job_id \<Rightarrow> status option" where
  "status_of c jid = map_option status (get_job_status (active_jobs c) jid)"

definition field_of :: "config \<Rightarrow> job_id \<Rightarrow> string \<Rightarrow> val option" where
  "field_of c jid key =
     (case get_job_status (active_jobs c) jid of None \<Rightarrow> None | Some j \<Rightarrow> map_of (entries j) key)"

section \<open>What a completed record must hold\<close>

text \<open>
  The specification's formulas for the two result numbers, and the invariant of the
  runner's local variables that carries them into the record.
\<close>

definition ratio_ok :: "real \<Rightarrow> real \<Rightarrow> real \<Rightarrow> real \<Rightarrow> bool" where
  "ratio_ok osz csz q p =
     (q = (if csz = 0 then 0 else osz / csz) \<and>
      p = (if osz = 0 then 0 else (osz - csz) / osz * 100))"

definition result_ok :: "config \<Rightarrow> job_id \<Rightarrow> bool" where
  "result_ok c jid =
     (case (field_of c jid ''original_size'', field_of c jid ''compressed_size'',
            field_of c jid ''compression_ratio'', field_of c jid ''compression_percent'') of
        (Some (VNum osz), Some (VNum csz), Some (VNum q), Some (VNum p)) \<Rightarrow> ratio_ok osz csz q p
      | _ \<Rightarrow> False)"

definition sizes_inv :: "env \<Rightarrow> config \<Rightarrow> bool" where
  "sizes_inv e c =
     (0 \<le> original_size (run c) \<and>
      raised (run c) \<noteq> Some ZeroDivisionError \<and>
      (pc (run c) = P_complete \<longrightarrow>
         0 \<le> compressed_size (run c) \<and>
         ratio_ok (original_size (run c)) (compressed_size (run c)) (ratio (run c)) (percent (run c))) \<and>
      (status_of c (e_job e) = Some Completed \<longrightarrow> result_ok c (e_job e)))"

section \<open>The window of a process handle\<close>

text \<open>
  A handle for the job is registered only from line 173 to the unregistration that
  follows the return of \<^verbatim>\<open>communicate\<close> (line 179, or line 219 when it raised).
  \<open>rank\<close> bounds the runner's remaining steps; \<open>runs\<close> counts the runner's moves in
  a schedule.
\<close>

definition handle_inv :: "env \<Rightarrow> config \<Rightarrow> bool" where
  "handle_inv e c =
     (map_of (active_processes c) (e_job e) \<noteq> None \<longrightarrow>
        pc (run c) = P_communicate \<or> pc (run c) = P_unregister \<or>
        pc (run c) = P_except \<or> pc (run c) = P_except_unreg)"

fun rank :: "pc \<Rightarrow> nat" where
  "rank P_start = 11"
| "rank P_probe_in = 10"
| "rank P_update10 = 9"
| "rank P_popen = 8"
| "rank P_register = 7"
| "rank P_communicate = 6"
| "rank P_unregister = 5"
| "rank P_read_status = 4"
| "rank P_probe_out = 3"
| "rank P_except = 2"
| "rank P_cleanup = 1"
| "rank P_fail = 1"
| "rank P_complete = 1"
| "rank P_except_unreg = 1"
| "rank P_done = 0"

fun runs :: "event list \<Rightarrow> nat" where
  "runs [] = 0"
| "runs (Run # evs) = Suc (runs evs)"
| "runs (ev # evs) = runs evs"

section \<open>A concrete server\<close>

text \<open>
  One job, used to run the model on explicit inputs: a 100 MB upload that the encoder
  turns into a 10 MB file.
\<close>

definition demo_env :: env where
  "demo_env = \<lparr>e_job = ''j1'', e_input = ''in.mp4'', e_output = ''out.mp4'', e_pid = 7,
     in_info = [(''codec'', VStr ''h264'')], out_info = [(''codec'', VStr ''hevc'')],
     probe_in_ok = True, probe_out_ok = True, popen_ok = True, communicate_ok = True, enc_rc = 0, enc_stderr = [],
     enc_written = Some 10485760, remove_ok = True\<rparr>"

definition idle :: config where
  "idle = \<lparr>active_jobs = [], active_processes = [], files = [(''in.mp4'', 104857600)],
     signals = [], clock = 1000, run = new_runner, cancels = []\<rparr>"

definition demo_start :: config where
  "demo_start = submit demo_env ''in.mp4'' [(''crf'', VNum 28)] idle"

text \<open>The job after the runner has gone through all its steps undisturbed.\<close>

definition demo_done :: config where
  "demo_done = exec demo_env [Run, Run, Run, Run, Run, Run, Run, Run, Run, Run] demo_start"

text \<open>
  The job cancelled while the encoder runs: the request finds the handle, signals the
  process and stores \<^verbatim>\<open>cancelled\<close>; the runner then stands before line 182.
\<close>

definition demo_at_read :: config where
  "demo_at_read = exec demo_env [Run, Run, Run, Run, Run, Run, Request ''j1'' True,
                                 Cancel 0, Cancel 0, Cancel 0, Run] demo_start"

text \<open>A registry with an old finished job, an old running job and a recent failed job.\<close>

definition demo_registry :: registry where
  "demo_registry =
     [(''a'', \<lparr>status = Completed, updated_at = 0, entries = []\<rparr>),
      (''b'', \<lparr>status = Processing, updated_at = 0, entries = []\<rparr>),
      (''c'', \<lparr>status = Failed, updated_at = 5000, entries = []\<rparr>)]"

text \<open>The same server with an empty upload that the encoder turns into a 1 MB file.\<close>

definition empty_env :: env where
  "empty_env = demo_env\<lparr>enc_written := Some 1048576\<rparr>"

definition empty_start :: config where
  "empty_start = submit empty_env ''in.mp4'' [] (idle\<lparr>files := [(''in.mp4'', 0)]\<rparr>)"

text \<open>The same upload with an encoder that writes 200 MB, stopped before line 182.\<close>

definition grown_env :: env where
  "grown_env = demo_env\<lparr>enc_written := Some 209715200\<rparr>"

definition grown_at_read :: config where
  "grown_at_read = exec grown_env [Run, Run, Run, Run, Run, Run, Run] demo_start"

text \<open>The same job with a \<^verbatim>\<open>communicate\<close> that raises.\<close>

definition broken_env :: env where
  "broken_env = demo_env\<lparr>communicate_ok := False\<rparr>"

section \<open>Properties\<close>

lemmas model_defs = exec_def runner_step_def cancel_step_def goto_def raise_def
  update_job_status_def dict_update_def get_job_status_def status_of_def field_of_def
  register_process_def unregister_process_def cancel_process_def get_video_info_def
  get_size_mb_def compression_ratio_def compression_percent_def py_truediv_def size_mb_def
  submit_def new_runner_def basename_def

lemmas demo_defs = demo_env_def idle_def demo_start_def demo_done_def demo_at_read_def
  empty_env_def empty_start_def grown_env_def grown_at_read_def

lemma basename_example: "basename ''/out/a.mp4'' = ''a.mp4''"
  by (simp add: basename_def)

subsection \<open>The registry's update\<close>


lemma map_of_update_job_status:
  "map_of (update_job_status now jid st kw jobs) k =
     (if k = jid
      then Some \<lparr>status = st, updated_at = now,
                 entries = dict_update (case map_of jobs jid of None \<Rightarrow> [] | Some j \<Rightarrow> entries j) kw\<rparr>
      else map_of jobs k)"
  by (simp add: update_job_status_def update_conv')




subsection \<open>Cancel requests\<close>

lemma cancel_job_unfold:
  "cancel_job kill_ok jid c =
     (case get_job_status (active_jobs c) jid of
        None \<Rightarrow> (NotFound, c)
      | Some j \<Rightarrow>
          if status j \<noteq> Queued \<and> status j \<noteq> Processing then (InvalidState, c)
          else (Success,
                c\<lparr>signals := snd (cancel_process kill_ok jid (active_processes c) (signals c)),
                  active_jobs := update_job_status (clock c) jid Cancelled
                     [(''message'', VStr ''Job cancelled by user'')] (active_jobs c)\<rparr>))"
  by (auto simp: cancel_job_def cancel_step_def split: option.splits)

text \<open>
  Claim C5: on a job whose status is \<^verbatim>\<open>queued\<close> or \<^verbatim>\<open>processing\<close>, \<^verbatim>\<open>cancel_job\<close>
  replies success and has by then stored status \<^verbatim>\<open>cancelled\<close> and the message, whatever
  the process registry holds for the job and whether or not the kill went through
  (\<open>kill_ok\<close> and the configuration are arbitrary). Step by step, in whatever state
  other threads have left behind: after the test of line 337 the request always goes on
  from \<^verbatim>\<open>cancel_process\<close> to the update, and the update always stores
  \<^verbatim>\<open>cancelled\<close> and is followed by the success reply.
\<close>

theorem cancel_job_success:
  assumes "get_job_status (active_jobs c) jid = Some j"
      and "status j = Queued \<or> status j = Processing"
  shows "fst (cancel_job kill_ok jid c) = Success \<and>
         status_of (snd (cancel_job kill_ok jid c)) jid = Some Cancelled \<and>
         field_of (snd (cancel_job kill_ok jid c)) jid ''message'' =
           Some (VStr ''Job cancelled by user'') \<and>
         (\<forall>c'. cpc (fst (cancel_step \<lparr>c_job = jid, c_kill_ok = kill_ok, cpc = C_kill\<rparr> c')) =
                 C_update) \<and>
         (\<forall>c'. cpc (fst (cancel_step \<lparr>c_job = jid, c_kill_ok = kill_ok, cpc = C_update\<rparr> c')) =
                 C_return Success \<and>
               status_of (snd (cancel_step \<lparr>c_job = jid, c_kill_ok = kill_ok, cpc = C_update\<rparr> c'))
                 jid = Some Cancelled)"
  using assms
  by (auto simp: cancel_job_unfold cancel_step_def status_of_def field_of_def get_job_status_def
      map_of_update_job_status dict_update_def update_conv')

theorem cancel_job_success_witness:
  "status_of demo_start ''j1'' = Some Queued \<and>
   fst (cancel_job False ''j1'' demo_start) = Success \<and>
   status_of (snd (cancel_job False ''j1'' demo_start)) ''j1'' = Some Cancelled \<and>
   field_of (snd (cancel_job False ''j1'' demo_start)) ''j1'' ''message'' =
     Some (VStr ''Job cancelled by user'')"
proof -
  obtain j where h1: "get_job_status (active_jobs demo_start) ''j1'' = Some j"
    and h2: "status j = Queued"
    by (simp add: model_defs demo_defs)
  from h2 have h3: "status j = Queued \<or> status j = Processing" by simp
  from cancel_job_success [OF h1 h3, of False] h1 h2 show ?thesis
    by (simp add: status_of_def)
qed

text \<open>
  Claim C6: \<^verbatim>\<open>cancel_job\<close> replies not-found when the id has no record, and
  invalid-state when the record's status is neither \<^verbatim>\<open>queued\<close> nor \<^verbatim>\<open>processing\<close>;
  in both cases the whole shared state, the record included, is what it was.
\<close>

theorem cancel_job_refusals:
  "(get_job_status (active_jobs c) jid = None \<longrightarrow> cancel_job kill_ok jid c = (NotFound, c)) \<and>
   (\<forall>j. get_job_status (active_jobs c) jid = Some j \<and>
          status j \<noteq> Queued \<and> status j \<noteq> Processing
        \<longrightarrow> cancel_job kill_ok jid c = (InvalidState, c))"
  by (simp add: cancel_job_unfold)

theorem cancel_job_refusals_witness:
  "cancel_job True ''j9'' demo_start = (NotFound, demo_start) \<and>
   status_of demo_done ''j1'' = Some Completed \<and>
   cancel_job True ''j1'' demo_done = (InvalidState, demo_done)"
proof -
  have h1: "get_job_status (active_jobs demo_start) ''j9'' = None"
    by (simp add: model_defs demo_defs)
  obtain j where h2: "get_job_status (active_jobs demo_done) ''j1'' = Some j"
    and h3: "status j = Completed"
    by (simp add: model_defs demo_defs)
  from h3 have h4: "status j \<noteq> Queued \<and> status j \<noteq> Processing" by simp
  from cancel_job_refusals [of demo_start "''j9''" True] h1
  have a: "cancel_job True ''j9'' demo_start = (NotFound, demo_start)" by simp
  from cancel_job_refusals [of demo_done "''j1''" True] h2 h4
  have b: "cancel_job True ''j1'' demo_done = (InvalidState, demo_done)" by simp
  from a b h2 h3 show ?thesis by (simp add: status_of_def)
qed

subsection \<open>The janitor\<close>

lemma map_of_distinct_pair:
  "distinct (map fst al) \<Longrightarrow> (k, v) \<in> set al \<Longrightarrow> map_of al k = Some v"
  by simp

lemma clean_loop_filter:
  "distinct (map fst jobs) \<Longrightarrow> set ks \<subseteq> fst ` set jobs \<Longrightarrow> distinct ks \<Longrightarrow>
     clean_loop t ks jobs = (filter (\<lambda>(k, j). \<not> (k \<in> set ks \<and> expired t j)) jobs, None)"
proof (induction ks arbitrary: jobs)
  case Nil
  then show ?case by simp
next
  case (Cons jid ks)
  from Cons.prems obtain j where j: "map_of jobs jid = Some j"
    by (metis list.set_intros(1) subsetD weak_map_of_SomeI map_of_eq_None_iff not_None_eq)
  from Cons.prems have uniq: "\<And>k j'. (k, j') \<in> set jobs \<Longrightarrow> k = jid \<Longrightarrow> j' = j"
    using j by (metis map_of_distinct_pair option.inject)
  show ?case
  proof (cases "expired t j")
    case True
    let ?jobs' = "AList.delete jid jobs"
    have d: "distinct (map fst ?jobs')" using Cons.prems(1) by (simp add: distinct_delete)
    have "set (map fst ?jobs') = set (map fst jobs) - {jid}"
      by (simp only: delete_keys set_removeAll)
    then have s: "set ks \<subseteq> fst ` set ?jobs'"
      using Cons.prems(2,3) by auto
    have "clean_loop t ks ?jobs' = (filter (\<lambda>(k, j). \<not> (k \<in> set ks \<and> expired t j)) ?jobs', None)"
      using Cons.IH [OF d s] Cons.prems(3) by simp
    moreover have "filter (\<lambda>(k, j). \<not> (k \<in> set ks \<and> expired t j)) ?jobs' =
                   filter (\<lambda>(k, j). \<not> (k \<in> set (jid # ks) \<and> expired t j)) jobs"
      unfolding AList.delete_eq filter_filter
      by (rule filter_cong) (use True uniq in auto)
    ultimately show ?thesis using j True by simp
  next
    case False
    have "clean_loop t ks jobs = (filter (\<lambda>(k, j). \<not> (k \<in> set ks \<and> expired t j)) jobs, None)"
      using Cons.IH [OF Cons.prems(1)] Cons.prems(2,3) by simp
    moreover have "filter (\<lambda>(k, j). \<not> (k \<in> set ks \<and> expired t j)) jobs =
                   filter (\<lambda>(k, j). \<not> (k \<in> set (jid # ks) \<and> expired t j)) jobs"
      by (rule filter_cong) (use False uniq in auto)
    ultimately show ?thesis using j False by simp
  qed
qed

lemma clean_old_jobs_filter:
  assumes "distinct (map fst jobs)"
  shows "clean_old_jobs t jobs = (filter (\<lambda>(k, j). \<not> expired t j) jobs, None)"
proof -
  have "clean_old_jobs t jobs =
          (filter (\<lambda>(k, j). \<not> (k \<in> set (map fst jobs) \<and> expired t j)) jobs, None)"
    unfolding clean_old_jobs_def using assms by (intro clean_loop_filter) auto
  moreover have "filter (\<lambda>(k, j). \<not> (k \<in> set (map fst jobs) \<and> expired t j)) jobs =
                 filter (\<lambda>(k, j). \<not> expired t j) jobs"
    by (rule filter_cong) (auto simp: image_iff)
  ultimately show ?thesis by simp
qed

lemma distinct_filter_keys: "distinct (map fst al) \<Longrightarrow> distinct (map fst (filter P al))"
  by (induction al) (auto simp: image_iff)

text \<open>
  Claim C8: \<^verbatim>\<open>clean_old_jobs\<close> at time \<open>t\<close> never raises and keeps, in their order
  and unchanged, exactly the records that are not both terminal (completed, failed or
  cancelled) and stamped more than 3600 seconds before \<open>t\<close>; every other record is
  removed. A second sweep at the same time changes nothing, and a sweep at \<open>t\<close>
  followed by a sweep at a later time \<open>t'\<close> leaves what the sweep at \<open>t'\<close> alone
  leaves. The registry is a dictionary: its keys are distinct.
\<close>

theorem sweep_removes_exactly_expired:
  assumes "distinct (map fst jobs)"
  shows "clean_old_jobs t jobs =
           (filter (\<lambda>(k, j). \<not> ((status j = Completed \<or> status j = Failed \<or> status j = Cancelled)
                                   \<and> t - updated_at j > 3600)) jobs, None)
         \<and> clean_old_jobs t (fst (clean_old_jobs t jobs)) = clean_old_jobs t jobs
         \<and> (\<forall>t'. t \<le> t' \<longrightarrow> clean_old_jobs t' (fst (clean_old_jobs t jobs)) = clean_old_jobs t' jobs)"
proof -
  have a: "clean_old_jobs t jobs = (filter (\<lambda>(k, j). \<not> expired t j) jobs, None)" for t
    using assms by (rule clean_old_jobs_filter)
  have d: "distinct (map fst (filter (\<lambda>(k, j). \<not> expired t j) jobs))"
    using assms by (rule distinct_filter_keys)
  have b: "clean_old_jobs t' (filter (\<lambda>(k, j). \<not> expired t j) jobs) =
           (filter (\<lambda>(k, j). \<not> expired t' j) (filter (\<lambda>(k, j). \<not> expired t j) jobs), None)" for t'
    using d by (rule clean_old_jobs_filter)
  have c: "t \<le> t' \<Longrightarrow> filter (\<lambda>(k, j). \<not> expired t' j) (filter (\<lambda>(k, j). \<not> expired t j) jobs)
             = filter (\<lambda>(k, j). \<not> expired t' j) jobs" for t'
    unfolding filter_filter by (rule filter_cong) (auto simp: expired_def)
  have e: "filter (\<lambda>(k, j). \<not> expired t j) jobs =
           filter (\<lambda>(k, j). \<not> ((status j = Completed \<or> status j = Failed \<or> status j = Cancelled)
                                   \<and> t - updated_at j > 3600)) jobs"
    by (rule filter_cong) (auto simp: expired_def terminal_def)
  have first: "clean_old_jobs t jobs =
           (filter (\<lambda>(k, j). \<not> ((status j = Completed \<or> status j = Failed \<or> status j = Cancelled)
                                   \<and> t - updated_at j > 3600)) jobs, None)"
    using a [of t] e by simp
  have succ: "clean_old_jobs t' (fst (clean_old_jobs t jobs)) = clean_old_jobs t' jobs"
    if "t \<le> t'" for t'
    using a [of t] a [of t'] b [of t'] c [OF that] by simp
  from first succ show ?thesis by simp
qed

theorem sweep_removes_exactly_expired_witness:
  "distinct (map fst demo_registry) \<and>
   clean_old_jobs 7200 demo_registry =
     ([(''b'', \<lparr>status = Processing, updated_at = 0, entries = []\<rparr>),
       (''c'', \<lparr>status = Failed, updated_at = 5000, entries = []\<rparr>)], None) \<and>
   clean_old_jobs 7200 (fst (clean_old_jobs 7200 demo_registry)) =
     clean_old_jobs 7200 demo_registry \<and>
   clean_old_jobs 9000 (fst (clean_old_jobs 7200 demo_registry)) =
     clean_old_jobs 9000 demo_registry"
proof -
  have h: "distinct (map fst demo_registry)"
    by (simp add: demo_registry_def)
  from sweep_removes_exactly_expired [OF h, of 7200] h show ?thesis
    by (simp add: demo_registry_def clean_old_jobs_def expired_def terminal_def)
qed

subsection \<open>The runner after the encoder has returned\<close>

text \<open>
  Claim C2: when the runner re-reads the status after the encoder has returned (line
  182) and reads \<^verbatim>\<open>cancelled\<close>, its next two steps delete the output file if it is
  there and \<^verbatim>\<open>os.remove\<close> goes through, leave the files as they are otherwise
  (no exception is raised on a failed deletion), never write the registry, and end the
  runner; a finished runner does nothing more.
\<close>

theorem cancelled_after_encoder_returns:
  assumes "pc (run c) = P_read_status" and "status_of c (e_job e) = Some Cancelled"
  shows "pc (run (exec e [Run] c)) = P_cleanup \<and>
         active_jobs (exec e [Run] c) = active_jobs c \<and>
         pc (run (exec e [Run, Run] c)) = P_done \<and>
         active_jobs (exec e [Run, Run] c) = active_jobs c \<and>
         files (exec e [Run, Run] c) =
           (if map_of (files c) (e_output e) \<noteq> None \<and> remove_ok e
            then AList.delete (e_output e) (files c) else files c) \<and>
         raised (run (exec e [Run, Run] c)) = raised (run c) \<and>
         exec e [Run, Run, Run] c = exec e [Run, Run] c"
  using assms
  by (simp add: exec_def runner_step_def goto_def status_of_def)

theorem cancelled_after_encoder_returns_witness:
  "pc (run demo_at_read) = P_read_status \<and>
   status_of demo_at_read ''j1'' = Some Cancelled \<and>
   signals demo_at_read = [7] \<and>
   files demo_at_read = [(''in.mp4'', 104857600), (''out.mp4'', 10485760)] \<and>
   pc (run (exec demo_env [Run, Run] demo_at_read)) = P_done \<and>
   active_jobs (exec demo_env [Run, Run] demo_at_read) = active_jobs demo_at_read \<and>
   files (exec demo_env [Run, Run] demo_at_read) = [(''in.mp4'', 104857600)]"
proof -
  have h1: "pc (run demo_at_read) = P_read_status"
    by (simp add: model_defs demo_defs)
  have h2: "status_of demo_at_read (e_job demo_env) = Some Cancelled"
    by (simp add: model_defs demo_defs)
  have f: "files demo_at_read = [(''in.mp4'', 104857600), (''out.mp4'', 10485760)] \<and>
           signals demo_at_read = [7]"
    by (simp add: model_defs demo_defs)
  have e: "e_job demo_env = ''j1'' \<and> e_output demo_env = ''out.mp4'' \<and> remove_ok demo_env"
    by (simp add: demo_env_def)
  from cancelled_after_encoder_returns [OF h1 h2] h1 h2 f e show ?thesis
    by simp
qed

subsection \<open>Cancellation against the runner's own updates\<close>

text \<open>
  Claim C1 on the code: a cancel request that is served before the runner thread has
  executed its first line replies success and stores \<^verbatim>\<open>cancelled\<close>; the runner then
  overwrites the status with \<^verbatim>\<open>processing\<close> (line 119), no handle was registered, so
  the encoder runs to its end, line 182 reads \<^verbatim>\<open>processing\<close>, and the job ends
  \<^verbatim>\<open>completed\<close>. The same happens to a request served while the input is probed,
  between lines 119 and 125: line 125 overwrites the status.
\<close>

theorem cancel_before_start_ends_completed:
  "map cpc (cancels (exec demo_env [Request ''j1'' True, Cancel 0, Cancel 0, Cancel 0] demo_start))
     = [C_return Success] \<and>
   status_of (exec demo_env [Request ''j1'' True, Cancel 0, Cancel 0, Cancel 0] demo_start) ''j1''
     = Some Cancelled \<and>
   status_of (exec demo_env [Request ''j1'' True, Cancel 0, Cancel 0, Cancel 0,
                Run, Run, Run, Run, Run, Run, Run, Run, Run, Run] demo_start) ''j1''
     = Some Completed \<and>
   pc (run (exec demo_env [Request ''j1'' True, Cancel 0, Cancel 0, Cancel 0,
                Run, Run, Run, Run, Run, Run, Run, Run, Run, Run] demo_start)) = P_done \<and>
   map cpc (cancels (exec demo_env [Run, Request ''j1'' True, Cancel 0, Cancel 0, Cancel 0]
                demo_start)) = [C_return Success] \<and>
   status_of (exec demo_env [Run, Request ''j1'' True, Cancel 0, Cancel 0, Cancel 0]
                demo_start) ''j1'' = Some Cancelled \<and>
   status_of (exec demo_env [Run, Request ''j1'' True, Cancel 0, Cancel 0, Cancel 0,
                Run, Run, Run, Run, Run, Run, Run, Run, Run] demo_start) ''j1''
     = Some Completed \<and>
   pc (run (exec demo_env [Run, Request ''j1'' True, Cancel 0, Cancel 0, Cancel 0,
                Run, Run, Run, Run, Run, Run, Run, Run, Run] demo_start)) = P_done"
  by (simp add: model_defs demo_defs)

text \<open>
  Claim C3 on the code: the status leaves a terminal value in two ways. A job cancelled
  while queued goes from \<^verbatim>\<open>cancelled\<close> to \<^verbatim>\<open>processing\<close> at the runner's first
  line; and a cancel request that has read \<^verbatim>\<open>processing\<close> (line 337) and then waits
  while the runner finishes turns \<^verbatim>\<open>completed\<close> into \<^verbatim>\<open>cancelled\<close> (line 347).
\<close>

theorem terminal_status_is_overwritten:
  "status_of (exec demo_env [Request ''j1'' True, Cancel 0, Cancel 0, Cancel 0] demo_start) ''j1''
     = Some Cancelled \<and>
   status_of (exec demo_env [Request ''j1'' True, Cancel 0, Cancel 0, Cancel 0, Run] demo_start) ''j1''
     = Some Processing \<and>
   status_of (exec demo_env [Run, Request ''j1'' True, Cancel 0,
                Run, Run, Run, Run, Run, Run, Run, Run, Run] demo_start) ''j1''
     = Some Completed \<and>
   status_of (exec demo_env [Run, Request ''j1'' True, Cancel 0,
                Run, Run, Run, Run, Run, Run, Run, Run, Run, Cancel 0, Cancel 0] demo_start) ''j1''
     = Some Cancelled"
  by (simp add: model_defs demo_defs)

subsection \<open>The result numbers of a completed job\<close>

lemma get_size_mb_probe:
  "get_video_info ok fs info path = Inr i \<Longrightarrow> 0 \<le> get_size_mb i"
  by (auto simp: get_video_info_def get_size_mb_def size_mb_def update_conv'
      split: option.splits if_splits)

lemma get_video_info_raises:
  "get_video_info ok fs info path = Inl x \<Longrightarrow> x = OSError"
  by (auto simp: get_video_info_def split: option.splits if_splits)

lemma ratio_nonneg:
  "0 \<le> osz \<Longrightarrow> 0 \<le> csz \<Longrightarrow>
     compression_ratio osz csz = Inr (if csz = 0 then 0 else osz / csz) \<and>
     compression_percent osz csz = Inr (if osz = 0 then 0 else (osz - csz) / osz * 100)"
  by (auto simp: compression_ratio_def compression_percent_def py_truediv_def)

lemma clean_loop_map_of:
  "map_of (fst (clean_loop t ks jobs)) k = None \<or>
   map_of (fst (clean_loop t ks jobs)) k = map_of jobs k"
proof (induction ks arbitrary: jobs)
  case Nil
  then show ?case by simp
next
  case (Cons jid ks)
  show ?case
  proof (cases "map_of jobs jid")
    case None
    then show ?thesis by simp
  next
    case (Some j)
    show ?thesis
    proof (cases "expired t j")
      case True
      with Some Cons.IH [of "AList.delete jid jobs"] show ?thesis
        by (auto simp: delete_conv')
    next
      case False
      with Some Cons.IH [of jobs] show ?thesis by simp
    qed
  qed
qed

lemma sweep_status_of:
  "status_of (step e Sweep c) jid = Some s \<Longrightarrow>
     get_job_status (active_jobs (step e Sweep c)) jid = get_job_status (active_jobs c) jid"
  using clean_loop_map_of [of "clock c" "map fst (active_jobs c)" "active_jobs c" jid]
  by (auto simp: status_of_def get_job_status_def clean_old_jobs_def)

lemma status_of_frame:
  "status_of (c\<lparr>run := r\<rparr>) jid = status_of c jid"
  "status_of (c\<lparr>files := f\<rparr>) jid = status_of c jid"
  "status_of (c\<lparr>active_processes := ap\<rparr>) jid = status_of c jid"
  "status_of (c\<lparr>signals := sg\<rparr>) jid = status_of c jid"
  "status_of (c\<lparr>cancels := ks\<rparr>) jid = status_of c jid"
  "status_of (c\<lparr>clock := t\<rparr>) jid = status_of c jid"
  "status_of (goto p c) jid = status_of c jid"
  "status_of (raise x c) jid = status_of c jid"
  by (simp_all add: status_of_def goto_def raise_def)

lemma result_ok_frame:
  "result_ok (c\<lparr>run := r\<rparr>) jid = result_ok c jid"
  "result_ok (c\<lparr>files := f\<rparr>) jid = result_ok c jid"
  "result_ok (c\<lparr>active_processes := ap\<rparr>) jid = result_ok c jid"
  "result_ok (c\<lparr>signals := sg\<rparr>) jid = result_ok c jid"
  "result_ok (c\<lparr>cancels := ks\<rparr>) jid = result_ok c jid"
  "result_ok (c\<lparr>clock := t\<rparr>) jid = result_ok c jid"
  "result_ok (goto p c) jid = result_ok c jid"
  "result_ok (raise x c) jid = result_ok c jid"
  by (simp_all add: result_ok_def field_of_def goto_def raise_def)

lemma locals_frame:
  "run (c\<lparr>active_jobs := aj\<rparr>) = run c"
  "run (goto p c) = (run c)\<lparr>pc := p\<rparr>"
  "run (raise x c) = (run c)\<lparr>pc := P_except, raised := Some x\<rparr>"
  by (simp_all add: goto_def raise_def)

lemma status_of_update:
  "status_of (c\<lparr>active_jobs := update_job_status t jid' st kw (active_jobs c)\<rparr>) jid =
     (if jid = jid' then Some st else status_of c jid)"
  by (simp add: status_of_def get_job_status_def map_of_update_job_status)

lemma result_ok_update_other:
  "jid \<noteq> jid' \<Longrightarrow>
     result_ok (c\<lparr>active_jobs := update_job_status t jid' st kw (active_jobs c)\<rparr>) jid =
       result_ok c jid"
  by (simp add: result_ok_def field_of_def get_job_status_def map_of_update_job_status)

lemma result_ok_complete:
  "ratio_ok osz csz q p \<Longrightarrow>
   result_ok (c\<lparr>active_jobs := update_job_status t jid st
       [(''progress'', pr), (''message'', m), (''original_size'', VNum osz),
        (''compressed_size'', VNum csz), (''compression_ratio'', VNum q),
        (''compression_percent'', VNum p), (''output_filename'', fn)] (active_jobs c)\<rparr>) jid"
  by (simp add: result_ok_def field_of_def get_job_status_def map_of_update_job_status
      dict_update_def update_conv')

lemma sizes_inv_run: "sizes_inv e c \<Longrightarrow> sizes_inv e (runner_step e c)"
proof (cases "pc (run c)")
  case P_probe_in
  assume a: "sizes_inv e c"
  show ?thesis
  proof (cases "get_video_info (probe_in_ok e) (files c) (in_info e) (e_input e)")
    case (Inl x)
    then have "x = OSError" by (rule get_video_info_raises)
    with a Inl P_probe_in show ?thesis
      by (simp add: sizes_inv_def runner_step_def status_of_frame result_ok_frame locals_frame)
  next
    case (Inr i)
    from Inr have "0 \<le> get_size_mb i" by (rule get_size_mb_probe)
    with a Inr P_probe_in show ?thesis
      by (simp add: sizes_inv_def runner_step_def status_of_frame result_ok_frame)
  qed
next
  case P_probe_out
  assume a: "sizes_inv e c"
  show ?thesis
  proof (cases "get_video_info (probe_out_ok e) (files c) (out_info e) (e_output e)")
    case (Inl x)
    then have "x = OSError" by (rule get_video_info_raises)
    with a Inl P_probe_out show ?thesis
      by (simp add: sizes_inv_def runner_step_def status_of_frame result_ok_frame locals_frame)
  next
    case (Inr i)
    from a have o: "0 \<le> original_size (run c)" by (simp add: sizes_inv_def)
    from Inr have s: "0 \<le> get_size_mb i" by (rule get_size_mb_probe)
    from ratio_nonneg [OF o s] a Inr P_probe_out s show ?thesis
      by (simp add: sizes_inv_def runner_step_def status_of_frame result_ok_frame ratio_ok_def)
  qed
next
  case P_complete
  assume "sizes_inv e c"
  with P_complete show ?thesis
    by (simp add: sizes_inv_def runner_step_def status_of_frame result_ok_frame locals_frame
        status_of_update result_ok_complete)
next
  case P_communicate
  assume "sizes_inv e c"
  with P_communicate show ?thesis
    by (simp add: sizes_inv_def runner_step_def status_of_frame result_ok_frame locals_frame Let_def)
qed (simp_all add: sizes_inv_def runner_step_def status_of_frame result_ok_frame locals_frame
        status_of_update)

lemma sizes_inv_cancel:
  assumes "sizes_inv e c"
  shows "sizes_inv e (snd (cancel_step k c)\<lparr>cancels := ks\<rparr>)"
proof (cases "cpc k")
  case C_read
  with assms show ?thesis
    by (auto simp: sizes_inv_def cancel_step_def status_of_frame result_ok_frame
        split: option.splits)
next
  case C_kill
  with assms show ?thesis
    by (simp add: sizes_inv_def cancel_step_def status_of_frame result_ok_frame)
next
  case C_update
  with assms show ?thesis
    by (cases "c_job k = e_job e")
       (auto simp: sizes_inv_def cancel_step_def status_of_frame result_ok_frame
          status_of_update result_ok_update_other)
next
  case (C_return r)
  with assms show ?thesis
    by (simp add: sizes_inv_def cancel_step_def status_of_frame result_ok_frame)
qed

lemma result_ok_same_record:
  "get_job_status (active_jobs c') jid = get_job_status (active_jobs c) jid \<Longrightarrow>
     result_ok c' jid = result_ok c jid"
  by (simp add: result_ok_def field_of_def)

lemma status_of_same_record:
  "get_job_status (active_jobs c') jid = get_job_status (active_jobs c) jid \<Longrightarrow>
     status_of c' jid = status_of c jid"
  by (simp add: status_of_def)

lemma sizes_inv_step: "sizes_inv e c \<Longrightarrow> sizes_inv e (step e ev c)"
proof (cases ev)
  case Run
  assume "sizes_inv e c"
  with Run show ?thesis by (simp add: sizes_inv_run)
next
  case (Request jid kill_ok)
  assume "sizes_inv e c"
  with Request show ?thesis
    by (simp add: sizes_inv_def status_of_frame result_ok_frame)
next
  case (Cancel n)
  assume a: "sizes_inv e c"
  show ?thesis
  proof (cases "n < length (cancels c)")
    case True
    with Cancel sizes_inv_cancel [OF a, where k = "cancels c ! n"] show ?thesis
      by (simp add: split_beta)
  next
    case False
    with Cancel a show ?thesis by simp
  qed
next
  case Sweep
  assume a: "sizes_inv e c"
  have r: "run (step e Sweep c) = run c" by simp
  show ?thesis
  proof (cases "status_of (step e Sweep c) (e_job e) = Some Completed")
    case True
    from sweep_status_of [OF True]
    have same: "get_job_status (active_jobs (step e Sweep c)) (e_job e) =
                get_job_status (active_jobs c) (e_job e)" .
    from a True status_of_same_record [OF same] result_ok_same_record [OF same] r Sweep
    show ?thesis by (simp add: sizes_inv_def del: step.simps)
  next
    case False
    with a r Sweep show ?thesis by (simp add: sizes_inv_def del: step.simps)
  qed
next
  case (Tick d)
  assume "sizes_inv e c"
  with Tick show ?thesis
    by (simp add: sizes_inv_def status_of_frame result_ok_frame)
qed

lemma sizes_inv_exec: "sizes_inv e c \<Longrightarrow> sizes_inv e (exec e evs c)"
  unfolding exec_def
  by (induction evs arbitrary: c) (simp_all add: sizes_inv_step)

lemma sizes_inv_submit: "sizes_inv e (submit e fn opts c0)"
  by (simp add: sizes_inv_def submit_def new_runner_def status_of_frame status_of_update)

text \<open>
  Claim C7: whatever the environment does and however runner steps, cancel requests,
  sweeps and clock ticks interleave after the submission, the runner never raises
  \<^verbatim>\<open>ZeroDivisionError\<close>, and whenever the job's record reads \<^verbatim>\<open>completed\<close> its
  \<^verbatim>\<open>compression_ratio\<close> is \<^verbatim>\<open>original_size / compressed_size\<close>, or 0 when the
  compressed size is 0, and its \<^verbatim>\<open>compression_percent\<close> is
  \<^verbatim>\<open>(original_size - compressed_size) / original_size * 100\<close>, or 0 when the original
  size is 0. The ratio of \<^verbatim>\<open>compress_video\<close> (sizes of files, in MB) obeys the same
  rule.
\<close>

theorem completed_record_ratio_percent:
  "raised (run (exec e evs (submit e fn opts c0))) \<noteq> Some ZeroDivisionError \<and>
   (status_of (exec e evs (submit e fn opts c0)) (e_job e) = Some Completed \<longrightarrow>
      result_ok (exec e evs (submit e fn opts c0)) (e_job e)) \<and>
   compress_video_ratio (size_mb a) (size_mb b) =
     Inr (if b = 0 then 0 else size_mb a / size_mb b)"
proof -
  have "sizes_inv e (exec e evs (submit e fn opts c0))"
    by (rule sizes_inv_exec) (rule sizes_inv_submit)
  then show ?thesis
    by (auto simp: sizes_inv_def compress_video_ratio_def py_truediv_def size_mb_def)
qed

theorem completed_record_ratio_percent_witness:
  "status_of demo_done ''j1'' = Some Completed \<and>
   result_ok demo_done ''j1'' \<and>
   field_of demo_done ''j1'' ''compression_ratio'' = Some (VNum 10) \<and>
   field_of demo_done ''j1'' ''compression_percent'' = Some (VNum 90)"
proof -
  have d: "demo_done =
      exec demo_env [Run, Run, Run, Run, Run, Run, Run, Run, Run, Run]
        (submit demo_env ''in.mp4'' [(''crf'', VNum 28)] idle)"
    by (simp add: demo_done_def demo_start_def)
  have j: "e_job demo_env = ''j1''"
    by (simp add: demo_env_def)
  have s: "status_of demo_done ''j1'' = Some Completed"
    by (simp add: model_defs demo_defs)
  have f: "field_of demo_done ''j1'' ''compression_ratio'' = Some (VNum 10) \<and>
           field_of demo_done ''j1'' ''compression_percent'' = Some (VNum 90)"
    by (simp add: model_defs demo_defs)
  from completed_record_ratio_percent
         [of demo_env "[Run, Run, Run, Run, Run, Run, Run, Run, Run, Run]"
             "''in.mp4''" "[(''crf'', VNum 28)]" idle]
       d j s f
  show ?thesis by simp
qed

subsection \<open>An output larger than the input\<close>

lemma step_read_status:
  "pc (run c) = P_read_status \<Longrightarrow> status_of c (e_job e) \<noteq> Some Cancelled \<Longrightarrow>
   returncode (run c) = 0 \<Longrightarrow> runner_step e c = goto P_probe_out c"
  by (auto simp: runner_step_def status_of_def)

lemma step_probe_out:
  assumes "pc (run c) = P_probe_out"
      and "probe_out_ok e \<and> map_of (files c) (e_output e) = Some b"
      and "0 < original_size (run c)"
      and "0 < size_mb b"
  shows "runner_step e c =
           c\<lparr>run := (run c)\<lparr>pc := P_complete, compressed_size := size_mb b,
                  ratio := original_size (run c) / size_mb b,
                  percent := (original_size (run c) - size_mb b) / original_size (run c) * 100\<rparr>\<rparr>"
proof -
  have i: "get_video_info (probe_out_ok e) (files c) (out_info e) (e_output e) =
             Inr (AList.update ''size_mb'' (VNum (size_mb b)) (out_info e))"
    using assms(2) by (simp add: get_video_info_def)
  have g: "get_size_mb (AList.update ''size_mb'' (VNum (size_mb b)) (out_info e)) = size_mb b"
    by (simp add: get_size_mb_def update_conv')
  have q: "compression_ratio (original_size (run c)) (size_mb b) =
             Inr (original_size (run c) / size_mb b)"
    using assms(4) by (simp add: compression_ratio_def py_truediv_def)
  have p: "compression_percent (original_size (run c)) (size_mb b) =
             Inr ((original_size (run c) - size_mb b) / original_size (run c) * 100)"
    using assms(3) by (simp add: compression_percent_def py_truediv_def)
  show ?thesis
    unfolding runner_step_def
    by (simp only: assms(1) pc.case i sum.case g q p)
qed

lemma step_complete:
  assumes "pc (run c) = P_complete"
  shows "status_of (runner_step e c) (e_job e) = Some Completed \<and>
         field_of (runner_step e c) (e_job e) ''compression_ratio'' = Some (VNum (ratio (run c))) \<and>
         field_of (runner_step e c) (e_job e) ''compression_percent'' = Some (VNum (percent (run c)))"
  using assms
  by (simp add: runner_step_def goto_def status_of_def field_of_def get_job_status_def
      map_of_update_job_status dict_update_def update_conv')

text \<open>
  Claim C10, as the code has it: when the runner re-reads a status other than
  \<^verbatim>\<open>cancelled\<close> after an encoder that returned 0, the original size is positive and
  the output file can be probed and is larger than it, the job becomes \<^verbatim>\<open>completed\<close>
  with a \<^verbatim>\<open>compression_ratio\<close> below 1 and a negative \<^verbatim>\<open>compression_percent\<close>:
  nothing clamps the percent at 0.
\<close>

theorem larger_output_completes_negative:
  assumes "pc (run c) = P_read_status"
      and "returncode (run c) = 0"
      and "status_of c (e_job e) \<noteq> Some Cancelled"
      and "map_of (files c) (e_output e) = Some b"
      and "0 < original_size (run c)"
      and "original_size (run c) < size_mb b"
      and "probe_out_ok e"
  shows "status_of (exec e [Run, Run, Run] c) (e_job e) = Some Completed \<and>
         field_of (exec e [Run, Run, Run] c) (e_job e) ''compression_ratio'' =
           Some (VNum (original_size (run c) / size_mb b)) \<and>
         original_size (run c) / size_mb b < 1 \<and>
         field_of (exec e [Run, Run, Run] c) (e_job e) ''compression_percent'' =
           Some (VNum ((original_size (run c) - size_mb b) / original_size (run c) * 100)) \<and>
         (original_size (run c) - size_mb b) / original_size (run c) * 100 < 0"
proof -
  let ?o = "original_size (run c)"
  let ?c1 = "goto P_probe_out c"
  let ?c2 = "?c1\<lparr>run := (run ?c1)\<lparr>pc := P_complete, compressed_size := size_mb b,
                  ratio := ?o / size_mb b, percent := (?o - size_mb b) / ?o * 100\<rparr>\<rparr>"
  from assms(5,6) have pos: "0 < size_mb b" by simp
  have s1: "runner_step e c = ?c1"
    using assms(1,3,2) by (rule step_read_status)
  have a1: "pc (run ?c1) = P_probe_out"
    "probe_out_ok e \<and> map_of (files ?c1) (e_output e) = Some b"
    "0 < original_size (run ?c1)" "original_size (run ?c1) = ?o"
    using assms(4,5,7) by (simp_all add: goto_def)
  have s2: "runner_step e ?c1 = ?c2"
    using step_probe_out [OF a1(1) a1(2) a1(3) pos] a1(4) by simp
  have a2: "pc (run ?c2) = P_complete" "ratio (run ?c2) = ?o / size_mb b"
    "percent (run ?c2) = (?o - size_mb b) / ?o * 100"
    by simp_all
  have e3: "exec e [Run, Run, Run] c = runner_step e ?c2"
    by (simp add: exec_def s1 s2)
  have r: "?o / size_mb b < 1" using assms(6) pos by simp
  have n: "(?o - size_mb b) / ?o * 100 < 0"
    using assms(5,6) by (simp add: divide_less_0_iff mult_less_0_iff)
  from step_complete [OF a2(1), of e] a2(2,3) e3 r n show ?thesis
    by simp
qed

theorem larger_output_completes_negative_witness:
  "pc (run grown_at_read) = P_read_status \<and>
   status_of grown_at_read ''j1'' = Some Processing \<and>
   original_size (run grown_at_read) = 100 \<and>
   map_of (files grown_at_read) ''out.mp4'' = Some 209715200 \<and>
   status_of (exec grown_env [Run, Run, Run] grown_at_read) ''j1'' = Some Completed \<and>
   field_of (exec grown_env [Run, Run, Run] grown_at_read) ''j1'' ''compression_ratio'' =
     Some (VNum (1 / 2)) \<and>
   field_of (exec grown_env [Run, Run, Run] grown_at_read) ''j1'' ''compression_percent'' =
     Some (VNum (- 100))"
proof -
  have h1: "pc (run grown_at_read) = P_read_status"
    by (simp add: model_defs demo_defs)
  have h2: "returncode (run grown_at_read) = 0"
    by (simp add: model_defs demo_defs)
  have st: "status_of grown_at_read ''j1'' = Some Processing"
    by (simp add: model_defs demo_defs)
  have j: "e_job grown_env = ''j1''" "e_output grown_env = ''out.mp4''"
    by (simp_all add: grown_env_def demo_env_def)
  have h3: "status_of grown_at_read (e_job grown_env) \<noteq> Some Cancelled"
    by (simp add: j st)
  have f: "map_of (files grown_at_read) ''out.mp4'' = Some 209715200"
    by (simp add: model_defs demo_defs)
  have h4: "map_of (files grown_at_read) (e_output grown_env) = Some 209715200"
    by (simp add: j f)
  have o: "original_size (run grown_at_read) = 100"
    by (simp add: model_defs demo_defs)
  have sz: "size_mb 209715200 = 200" by (simp add: size_mb_def)
  have h5: "0 < original_size (run grown_at_read)" by (simp add: o)
  have h6: "original_size (run grown_at_read) < size_mb 209715200" by (simp add: o sz)
  have h7: "probe_out_ok grown_env" by (simp add: grown_env_def demo_env_def)
  have "status_of (exec grown_env [Run, Run, Run] grown_at_read) ''j1'' = Some Completed \<and>
   field_of (exec grown_env [Run, Run, Run] grown_at_read) ''j1'' ''compression_ratio'' =
     Some (VNum (100 / 200)) \<and>
   field_of (exec grown_env [Run, Run, Run] grown_at_read) ''j1'' ''compression_percent'' =
     Some (VNum ((100 - 200) / 100 * 100))"
    using larger_output_completes_negative [OF h1 h2 h3 h4 h5 h6 h7] unfolding j o sz by blast
  with h1 st o f show ?thesis by simp
qed

text \<open>
  The claim without these conditions is false. From an empty upload the encoder writes a
  1 MB file, the job completes, and the guard of line 200 records a
  \<^verbatim>\<open>compression_percent\<close> of 0, which is not negative. And when a cancel request is
  served while the encoder runs (the kill fails, the encoder returns 0 with a 200 MB
  output for the 100 MB upload), the job does not become \<^verbatim>\<open>completed\<close>.
\<close>

theorem larger_output_counterexample:
  "size_mb 0 < size_mb 1048576 \<and>
   status_of (exec empty_env [Run, Run, Run, Run, Run, Run, Run, Run, Run, Run] empty_start) ''j1''
     = Some Completed \<and>
   field_of (exec empty_env [Run, Run, Run, Run, Run, Run, Run, Run, Run, Run] empty_start) ''j1''
     ''original_size'' = Some (VNum 0) \<and>
   field_of (exec empty_env [Run, Run, Run, Run, Run, Run, Run, Run, Run, Run] empty_start) ''j1''
     ''compressed_size'' = Some (VNum 1) \<and>
   field_of (exec empty_env [Run, Run, Run, Run, Run, Run, Run, Run, Run, Run] empty_start) ''j1''
     ''compression_percent'' = Some (VNum 0) \<and>
   returncode (run (exec grown_env [Run, Run, Run, Run, Run, Request ''j1'' False,
       Cancel 0, Cancel 0, Cancel 0, Run, Run, Run, Run, Run] demo_start)) = 0 \<and>
   status_of (exec grown_env [Run, Run, Run, Run, Run, Request ''j1'' False,
       Cancel 0, Cancel 0, Cancel 0, Run, Run, Run, Run, Run] demo_start) ''j1'' = Some Cancelled \<and>
   pc (run (exec grown_env [Run, Run, Run, Run, Run, Request ''j1'' False,
       Cancel 0, Cancel 0, Cancel 0, Run, Run, Run, Run, Run] demo_start)) = P_done"
  by (simp add: model_defs demo_defs)

subsection \<open>The process handle\<close>

lemma map_of_unregister: "map_of (unregister_process jid procs) jid = None"
  by (simp add: unregister_process_def delete_conv')

lemma handle_inv_run: "handle_inv e c \<Longrightarrow> handle_inv e (runner_step e c)"
  by (cases "pc (run c)")
     (auto simp: handle_inv_def runner_step_def goto_def raise_def Let_def map_of_unregister
        split: sum.splits)

lemma cancel_step_frame:
  "active_processes (snd (cancel_step k c)) = active_processes c \<and>
   run (snd (cancel_step k c)) = run c"
  by (cases "cpc k") (auto simp: cancel_step_def split: option.splits)

lemma step_other_frame:
  "ev \<noteq> Run \<Longrightarrow>
     active_processes (step e ev c) = active_processes c \<and> run (step e ev c) = run c"
  by (cases ev) (auto simp: cancel_step_frame split_beta)

lemma handle_inv_step: "handle_inv e c \<Longrightarrow> handle_inv e (step e ev c)"
proof (cases "ev = Run")
  case True
  assume "handle_inv e c"
  with True show ?thesis by (simp add: handle_inv_run)
next
  case False
  assume "handle_inv e c"
  with step_other_frame [OF False, of e c] show ?thesis by (simp add: handle_inv_def)
qed

lemma handle_inv_exec: "handle_inv e c \<Longrightarrow> handle_inv e (exec e evs c)"
  unfolding exec_def
  by (induction evs arbitrary: c) (simp_all add: handle_inv_step)

lemma rank_run: "rank (pc (run (runner_step e c))) \<le> rank (pc (run c)) - 1"
  by (cases "pc (run c)")
     (auto simp: runner_step_def goto_def raise_def Let_def split: sum.splits)

lemma rank_exec: "rank (pc (run (exec e evs c))) \<le> rank (pc (run c)) - runs evs"
proof (induction evs arbitrary: c)
  case Nil
  then show ?case by (simp add: exec_def)
next
  case (Cons ev evs)
  have ex: "exec e (ev # evs) c = exec e evs (step e ev c)" by (simp add: exec_def)
  show ?case
  proof (cases "ev = Run")
    case True
    from Cons.IH [of "runner_step e c"] rank_run [of e c] True ex show ?thesis by simp
  next
    case False
    then have "runs (ev # evs) = runs evs" by (cases ev) simp_all
    with Cons.IH [of "step e ev c"] step_other_frame [OF False, of e c] ex show ?thesis by simp
  qed
qed

lemma rank_done: "rank p = 0 \<Longrightarrow> p = P_done"
  by (cases p) simp_all

text \<open>
  Claim C9, as the code has it: after a submission with no handle registered for the
  job, however runner steps, cancel requests, sweeps and clock ticks interleave and
  whatever the environment does, a handle for the job is registered only while the
  runner waits in \<^verbatim>\<open>communicate\<close> (line 176), stands before the unregistration of
  line 179 after \<^verbatim>\<open>communicate\<close> has returned, or is in the exception handler
  (before line 216 or before line 219); a finished runner has left no handle; and the
  runner is finished after at most 11 of its own steps, on every path.
\<close>

theorem handle_only_between_register_and_unregister:
  assumes "map_of (active_processes c0) (e_job e) = None"
  shows "(map_of (active_processes (exec e evs (submit e fn opts c0))) (e_job e) \<noteq> None \<longrightarrow>
            pc (run (exec e evs (submit e fn opts c0))) = P_communicate \<or>
            pc (run (exec e evs (submit e fn opts c0))) = P_unregister \<or>
            pc (run (exec e evs (submit e fn opts c0))) = P_except \<or>
            pc (run (exec e evs (submit e fn opts c0))) = P_except_unreg) \<and>
         (pc (run (exec e evs (submit e fn opts c0))) = P_done \<longrightarrow>
            map_of (active_processes (exec e evs (submit e fn opts c0))) (e_job e) = None) \<and>
         (11 \<le> runs evs \<longrightarrow> pc (run (exec e evs (submit e fn opts c0))) = P_done)"
proof -
  let ?c = "exec e evs (submit e fn opts c0)"
  have "handle_inv e (submit e fn opts c0)"
    using assms by (simp add: handle_inv_def submit_def)
  then have h: "handle_inv e ?c" by (rule handle_inv_exec)
  have "rank (pc (run ?c)) \<le> rank (pc (run (submit e fn opts c0))) - runs evs"
    by (rule rank_exec)
  then have r: "11 \<le> runs evs \<Longrightarrow> pc (run ?c) = P_done"
    by (intro rank_done) (simp add: submit_def new_runner_def)
  from h r show ?thesis by (auto simp: handle_inv_def)
qed

theorem handle_only_between_register_and_unregister_witness:
  "map_of (active_processes idle) ''j1'' = None \<and>
   pc (run (exec demo_env [Run, Run, Run, Run, Run] demo_start)) = P_communicate \<and>
   map_of (active_processes (exec demo_env [Run, Run, Run, Run, Run] demo_start)) ''j1'' = Some 7 \<and>
   pc (run (exec demo_env [Run, Run, Run, Run, Run, Run, Run, Run, Run, Run, Run] demo_start)) = P_done \<and>
   map_of (active_processes
     (exec demo_env [Run, Run, Run, Run, Run, Run, Run, Run, Run, Run, Run] demo_start)) ''j1'' = None \<and>
   pc (run (exec broken_env [Run, Run, Run, Run, Run, Run] demo_start)) = P_except \<and>
   map_of (active_processes (exec broken_env [Run, Run, Run, Run, Run, Run] demo_start)) ''j1'' = Some 7 \<and>
   status_of (exec broken_env [Run, Run, Run, Run, Run, Run, Run, Run, Run, Run, Run] demo_start) ''j1''
     = Some Failed \<and>
   map_of (active_processes
     (exec broken_env [Run, Run, Run, Run, Run, Run, Run, Run, Run, Run, Run] demo_start)) ''j1'' = None"
proof -
  have h: "map_of (active_processes idle) (e_job demo_env) = None"
    by (simp add: idle_def)
  have h': "map_of (active_processes idle) (e_job broken_env) = None"
    by (simp add: idle_def)
  have j: "e_job demo_env = ''j1''" "e_job broken_env = ''j1''"
    by (simp_all add: demo_env_def broken_env_def)
  have d: "submit demo_env ''in.mp4'' [(''crf'', VNum 28)] idle = demo_start"
          "submit broken_env ''in.mp4'' [(''crf'', VNum 28)] idle = demo_start"
    by (simp_all add: demo_start_def submit_def broken_env_def demo_env_def)
  have n: "11 \<le> runs [Run, Run, Run, Run, Run, Run, Run, Run, Run, Run, Run]"
    by simp
  have a: "pc (run (exec demo_env [Run, Run, Run, Run, Run] demo_start)) = P_communicate \<and>
     map_of (active_processes (exec demo_env [Run, Run, Run, Run, Run] demo_start)) ''j1'' = Some 7"
    by (simp add: model_defs demo_defs)
  have b: "pc (run (exec broken_env [Run, Run, Run, Run, Run, Run] demo_start)) = P_except \<and>
     map_of (active_processes (exec broken_env [Run, Run, Run, Run, Run, Run] demo_start)) ''j1'' = Some 7"
    by (simp add: broken_env_def model_defs demo_defs)
  have f: "status_of (exec broken_env [Run, Run, Run, Run, Run, Run, Run, Run, Run, Run, Run] demo_start) ''j1''
     = Some Failed"
    by (simp add: broken_env_def model_defs demo_defs)
  from handle_only_between_register_and_unregister [OF h, of "[Run, Run, Run, Run, Run, Run, Run, Run, Run, Run, Run]"
             "''in.mp4''" "[(''crf'', VNum 28)]"] n
  have x: "pc (run (exec demo_env [Run, Run, Run, Run, Run, Run, Run, Run, Run, Run, Run] demo_start)) = P_done \<and>
     map_of (active_processes
       (exec demo_env [Run, Run, Run, Run, Run, Run, Run, Run, Run, Run, Run] demo_start)) ''j1'' = None"
    unfolding j d by blast
  from handle_only_between_register_and_unregister [OF h', of "[Run, Run, Run, Run, Run, Run, Run, Run, Run, Run, Run]"
             "''in.mp4''" "[(''crf'', VNum 28)]"] n
  have y: "map_of (active_processes
       (exec broken_env [Run, Run, Run, Run, Run, Run, Run, Run, Run, Run, Run] demo_start)) ''j1'' = None"
    unfolding j d by blast
  from h j a b f x y show ?thesis by simp
qed

text \<open>
  The claim's last clause as the specification states it (a handle is present only while
  the encoder process is running) is false. After six steps of the undisturbed runner
  \<^verbatim>\<open>communicate\<close> has returned with exit code 0 and the output is written, yet the
  handle is still registered until line 179 runs. And when \<^verbatim>\<open>communicate\<close> raises,
  the handler first stores \<^verbatim>\<open>failed\<close> (line 216): the handle is still registered
  beside a record that already reads \<^verbatim>\<open>failed\<close>, until line 219 runs.
\<close>

theorem handle_after_encoder_returned_counterexample:
  "pc (run (exec demo_env [Run, Run, Run, Run, Run, Run] demo_start)) = P_unregister \<and>
   returncode (run (exec demo_env [Run, Run, Run, Run, Run, Run] demo_start)) = 0 \<and>
   map_of (files (exec demo_env [Run, Run, Run, Run, Run, Run] demo_start)) ''out.mp4'' =
     Some 10485760 \<and>
   map_of (active_processes (exec demo_env [Run, Run, Run, Run, Run, Run] demo_start)) ''j1'' =
     Some 7 \<and>
   pc (run (exec broken_env [Run, Run, Run, Run, Run, Run, Run] demo_start)) = P_except_unreg \<and>
   status_of (exec broken_env [Run, Run, Run, Run, Run, Run, Run] demo_start) ''j1'' =
     Some Failed \<and>
   map_of (active_processes (exec broken_env [Run, Run, Run, Run, Run, Run, Run] demo_start)) ''j1'' =
     Some 7"
  by (simp add: broken_env_def model_defs demo_defs)

end
